theory Spec2Isabelle
  imports Complex_Main "HOL-Library.Sublist"
begin

section \<open>Python values\<close>

text \<open>
  The bot exchanges JSON with the exchange and with its own event file. A decoded JSON
  value is a \<open>json\<close>; a Python dict is the association list of its items, read with
  \<open>map_of\<close>. Python numbers (\<open>int\<close> and \<open>float\<close>) are modelled as exact reals:
  rounding of binary floating point, NaN and overflow are outside this model.
  Every Python operation that can raise returns \<open>py_error + 'a\<close>, \<open>Inl\<close> being the
  exception.
\<close>

datatype py_error = AttributeError | TypeError | ValueError | KeyError | IndexError | OSError

datatype json =
    JNull
  | JBool bool
  | JNum real
  | JStr string
  | JList "json list"
  | JDict "(string \<times> json) list"

definition ebind :: "py_error + 'a \<Rightarrow> ('a \<Rightarrow> py_error + 'b) \<Rightarrow> py_error + 'b" where
  "ebind m f = (case m of Inl e \<Rightarrow> Inl e | Inr x \<Rightarrow> f x)"

text \<open>\<^verbatim>\<open>d.get(k, default)\<close>: only a dict has the method.\<close>

fun dict_get :: "json \<Rightarrow> string \<Rightarrow> json \<Rightarrow> py_error + json" where
  "dict_get (JDict kvs) k d = Inr (case map_of kvs k of None \<Rightarrow> d | Some v \<Rightarrow> v)"
| "dict_get _ k d = Inl AttributeError"

text \<open>\<^verbatim>\<open>len(x)\<close>.\<close>

fun py_len :: "json \<Rightarrow> py_error + nat" where
  "py_len (JList xs) = Inr (length xs)"
| "py_len (JDict kvs) = Inr (length kvs)"
| "py_len (JStr s) = Inr (length s)"
| "py_len _ = Inl TypeError"

text \<open>\<^verbatim>\<open>x[i]\<close> for a literal index \<open>i \<ge> 0\<close>. A JSON object has string keys only.\<close>

fun py_index :: "json \<Rightarrow> nat \<Rightarrow> py_error + json" where
  "py_index (JList xs) i = (if i < length xs then Inr (xs ! i) else Inl IndexError)"
| "py_index (JStr s) i = (if i < length s then Inr (JStr [s ! i]) else Inl IndexError)"
| "py_index (JDict kvs) i = Inl KeyError"
| "py_index _ i = Inl TypeError"

text \<open>\<^verbatim>\<open>x[k]\<close> for a string key \<open>k\<close>.\<close>

fun py_getitem :: "json \<Rightarrow> string \<Rightarrow> py_error + json" where
  "py_getitem (JDict kvs) k = (case map_of kvs k of None \<Rightarrow> Inl KeyError | Some v \<Rightarrow> Inr v)"
| "py_getitem _ k = Inl TypeError"

text \<open>Truth value of an object, as \<^verbatim>\<open>if x\<close> tests it.\<close>

fun py_truthy :: "json \<Rightarrow> bool" where
  "py_truthy JNull = False"
| "py_truthy (JBool b) = b"
| "py_truthy (JNum r) = (r \<noteq> 0)"
| "py_truthy (JStr s) = (s \<noteq> [])"
| "py_truthy (JList xs) = (xs \<noteq> [])"
| "py_truthy (JDict kvs) = (kvs \<noteq> [])"

text \<open>
  \<^verbatim>\<open>float(x)\<close>. What the built-in makes of a string is the parameter \<open>fl\<close>
  (\<open>None\<close> where it raises ValueError).
\<close>

fun py_float :: "(string \<Rightarrow> real option) \<Rightarrow> json \<Rightarrow> py_error + real" where
  "py_float fl (JNum r) = Inr r"
| "py_float fl (JBool b) = Inr (if b then 1 else 0)"
| "py_float fl (JStr s) = (case fl s of None \<Rightarrow> Inl ValueError | Some r \<Rightarrow> Inr r)"
| "py_float fl _ = Inl TypeError"

text \<open>\<^verbatim>\<open>k in x\<close> for a string \<open>k\<close>: a key of a dict, an element of a list, a substring.\<close>

fun py_contains :: "string \<Rightarrow> json \<Rightarrow> py_error + bool" where
  "py_contains k (JDict kvs) = Inr (map_of kvs k \<noteq> None)"
| "py_contains k (JList xs) = Inr (JStr k \<in> set xs)"
| "py_contains k (JStr s) = Inr (sublist k s)"
| "py_contains k _ = Inl TypeError"

text \<open>\<^verbatim>\<open>for x in v\<close>: the elements of a list, the keys of a dict, the characters of a string.\<close>

fun py_iter :: "json \<Rightarrow> py_error + json list" where
  "py_iter (JList xs) = Inr xs"
| "py_iter (JDict kvs) = Inr (map JStr (remdups (map fst kvs)))"
| "py_iter (JStr s) = Inr (map (\<lambda>c. JStr [c]) s)"
| "py_iter _ = Inl TypeError"

text \<open>
  \<^verbatim>\<open>xs[-k:]\<close> for an integer \<open>k\<close>: the last \<open>k\<close> elements when \<open>k > 0\<close>; the whole list
  when \<open>k = 0\<close> (\<open>-0\<close> is \<open>0\<close>); the list without its first \<open>-k\<close> elements when \<open>k < 0\<close>.
\<close>

definition slice_from_neg :: "int \<Rightarrow> 'a list \<Rightarrow> 'a list" where
  "slice_from_neg k xs =
     (if k > 0 then drop (length xs - nat k) xs else drop (nat (- k)) xs)"

section \<open>Price state (websocket\_manager.py)\<close>

text \<open>
  The values the module reads from \<^verbatim>\<open>config\<close>. The example configuration of the
  repository does not define the two reconnect delays, so they are parameters.
\<close>

record config =
  SPOT_SYMBOL :: string
  PERP_SYMBOL :: string
  WS_RECONNECT_DELAY :: int
  WS_RECONNECT_MAX_DELAY :: int

record OrderBookState =
  symbol :: string
  best_bid :: real
  best_ask :: real
  bid_size :: real
  ask_size :: real
  last_update :: real

definition is_valid :: "OrderBookState \<Rightarrow> bool" where
  "is_valid b \<longleftrightarrow> best_bid b > 0 \<and> best_ask b > 0"

record PriceState =
  spot :: OrderBookState
  perp :: OrderBookState

text \<open>A float result that may be \<^verbatim>\<open>float('inf')\<close>.\<close>

datatype pyfloat = Finite real | PosInf

definition is_ready :: "PriceState \<Rightarrow> bool" where
  "is_ready p \<longleftrightarrow> is_valid (spot p) \<and> is_valid (perp p)"

definition get_entry_spread :: "PriceState \<Rightarrow> real" where
  "get_entry_spread p =
     (if \<not> is_ready p then 0
      else (best_bid (perp p) - best_ask (spot p)) / best_ask (spot p))"

definition get_exit_spread :: "PriceState \<Rightarrow> pyfloat" where
  "get_exit_spread p =
     (if \<not> is_ready p then PosInf
      else Finite ((best_ask (perp p) - best_bid (spot p)) / best_bid (spot p)))"

text \<open>\<^verbatim>\<open>OrderBookState(symbol=s)\<close>: every number defaults to 0.0.\<close>

definition empty_book :: "string \<Rightarrow> OrderBookState" where
  "empty_book s = \<lparr>symbol = s, best_bid = 0, best_ask = 0, bid_size = 0, ask_size = 0,
     last_update = 0\<rparr>"

definition new_PriceState :: "config \<Rightarrow> PriceState" where
  "new_PriceState cfg = \<lparr>spot = empty_book (SPOT_SYMBOL cfg), perp = empty_book (PERP_SYMBOL cfg)\<rparr>"

text \<open>A book with given best prices, for concrete instances.\<close>

definition example_book :: "string \<Rightarrow> real \<Rightarrow> real \<Rightarrow> OrderBookState" where
  "example_book s b a = \<lparr>symbol = s, best_bid = b, best_ask = a, bid_size = 1, ask_size = 1,
     last_update = 0\<rparr>"

section \<open>Market data stream (websocket\_manager.py)\<close>

text \<open>
  The connection object that \<^verbatim>\<open>self._ws\<close> refers to is open or closed. Of the listener
  only whether one is registered matters; its calls are recorded as the list of price
  states it is called with.
\<close>

datatype conn = Open | Closed

record WebSocketManager =
  on_price_update :: bool
  price_state :: PriceState
  ws :: "conn option"
  running :: bool
  reconnect_delay :: int

definition new_WebSocketManager :: "config \<Rightarrow> bool \<Rightarrow> WebSocketManager" where
  "new_WebSocketManager cfg listener =
     \<lparr>on_price_update = listener, price_state = new_PriceState cfg, ws = None,
      running = False, reconnect_delay = WS_RECONNECT_DELAY cfg\<rparr>"

subsection \<open>Messages\<close>

text \<open>
  The best price or size of one side of the book:
  \<^verbatim>\<open>float(side[0][key]) if side else 0.0\<close>.
\<close>

definition top_of_side :: "(string \<Rightarrow> real option) \<Rightarrow> json \<Rightarrow> string \<Rightarrow> py_error + real" where
  "top_of_side fl side key =
     (if py_truthy side
      then ebind (py_index side 0) (\<lambda>level. ebind (py_getitem level key) (py_float fl))
      else Inr 0)"

text \<open>
  The six assignments of \<^verbatim>\<open>_handle_message\<close> from \<^verbatim>\<open>bids = ...\<close> to \<^verbatim>\<open>ask_size = ...\<close>,
  in their order: best bid, best ask, bid size, ask size.
\<close>

definition book_top :: "(string \<Rightarrow> real option) \<Rightarrow> json \<Rightarrow> py_error + (real \<times> real \<times> real \<times> real)" where
  "book_top fl levels =
     ebind (py_len levels) (\<lambda>n.
     ebind (if n > 0 then py_index levels 0 else Inr (JList [])) (\<lambda>bids.
     ebind (if n > 1 then py_index levels 1 else Inr (JList [])) (\<lambda>asks.
     ebind (top_of_side fl bids ''px'') (\<lambda>bb.
     ebind (top_of_side fl asks ''px'') (\<lambda>ba.
     ebind (top_of_side fl bids ''sz'') (\<lambda>bs.
     ebind (top_of_side fl asks ''sz'') (\<lambda>sa.
     Inr (bb, ba, bs, sa))))))))"

text \<open>
  \<^verbatim>\<open>_handle_message\<close>. \<open>now\<close> is \<^verbatim>\<open>time.time()\<close>. Everything that can raise comes before
  the first assignment, so an exception leaves the manager as it was; the normal result
  is the manager and the calls of the listener.
\<close>

definition handle_message ::
  "config \<Rightarrow> (string \<Rightarrow> real option) \<Rightarrow> real \<Rightarrow> json \<Rightarrow> WebSocketManager
     \<Rightarrow> py_error + (WebSocketManager \<times> PriceState list)" where
  "handle_message cfg fl now data m =
     ebind (dict_get data ''channel'' JNull) (\<lambda>channel.
     if channel = JStr ''subscriptionResponse'' then Inr (m, [])
     else if channel = JStr ''l2Book'' then
       ebind (dict_get data ''data'' (JDict [])) (\<lambda>book_data.
       ebind (dict_get book_data ''coin'' (JStr [])) (\<lambda>coin.
       ebind (dict_get book_data ''levels'' (JList [JList [], JList []])) (\<lambda>levels.
       ebind (book_top fl levels) (\<lambda>(bb, ba, bs, sa).
         let m' =
           (if coin = JStr (SPOT_SYMBOL cfg) then
              m\<lparr>price_state := (price_state m)
                   \<lparr>spot := \<lparr>symbol = SPOT_SYMBOL cfg, best_bid = bb, best_ask = ba,
                             bid_size = bs, ask_size = sa, last_update = now\<rparr>\<rparr>\<rparr>
            else if coin = JStr (PERP_SYMBOL cfg) then
              m\<lparr>price_state := (price_state m)
                   \<lparr>perp := \<lparr>symbol = PERP_SYMBOL cfg, best_bid = bb, best_ask = ba,
                             bid_size = bs, ask_size = sa, last_update = now\<rparr>\<rparr>\<rparr>
            else m)
         in Inr (m', if on_price_update m' \<and> is_ready (price_state m')
                      then [price_state m'] else [])))))
     else Inr (m, []))"

text \<open>
  The body of the loop of \<^verbatim>\<open>_listen\<close> for one decoded message: an exception of
  \<^verbatim>\<open>_handle_message\<close> is logged and the message skipped.
\<close>

definition listen_step ::
  "config \<Rightarrow> (string \<Rightarrow> real option) \<Rightarrow> real \<Rightarrow> json \<Rightarrow> WebSocketManager
     \<Rightarrow> WebSocketManager \<times> PriceState list" where
  "listen_step cfg fl now data m =
     (case handle_message cfg fl now data m of Inl e \<Rightarrow> (m, []) | Inr r \<Rightarrow> r)"

subsection \<open>Connecting and reconnecting\<close>

text \<open>\<^verbatim>\<open>disconnect\<close>: clear the flag and close the connection, if there is one.\<close>

definition disconnect :: "WebSocketManager \<Rightarrow> WebSocketManager" where
  "disconnect m =
     (case ws m of
        None \<Rightarrow> m\<lparr>running := False\<rparr>
      | Some c \<Rightarrow> m\<lparr>running := False, ws := Some Closed\<rparr>)"

text \<open>
  \<^verbatim>\<open>connect\<close> is a coroutine: it is suspended while it awaits the connection, the
  messages of a session, or \<^verbatim>\<open>asyncio.sleep\<close>. \<open>phase\<close> is where it is suspended
  (\<open>Sleeping d\<close>: in \<^verbatim>\<open>asyncio.sleep(d)\<close>), and an \<open>event\<close> is what resumes it, or a call
  of \<^verbatim>\<open>disconnect\<close> made meanwhile. \<open>Sleep_done\<close> is the end of the sleep, after its
  whole delay. The messages of a session change the price state only and are left
  out here.
\<close>

datatype phase = NotStarted | Connecting | Listening | Sleeping int | Returned

datatype event =
    Call_connect
  | Connected
  | Connect_failed
  | Session_ended
  | Sleep_done
  | Call_disconnect

text \<open>
  After the \<^verbatim>\<open>try\<close> statement: \<^verbatim>\<open>if self._running\<close> the coroutine sleeps; if not, the
  \<^verbatim>\<open>while\<close> test fails next and it returns.
\<close>

definition after_try :: "WebSocketManager \<Rightarrow> WebSocketManager \<times> phase" where
  "after_try m = (if running m then (m, Sleeping (reconnect_delay m)) else (m, Returned))"

text \<open>
  One step. Leaving the \<^verbatim>\<open>async with\<close> block closes the connection. After the sleep the
  delay is doubled up to the cap, and the \<^verbatim>\<open>while\<close> test is made again. An event that
  the phase does not wait for changes nothing.
\<close>

fun step :: "config \<Rightarrow> event \<Rightarrow> WebSocketManager \<times> phase \<Rightarrow> WebSocketManager \<times> phase" where
  "step cfg Call_disconnect (m, ph) = (disconnect m, ph)"
| "step cfg Call_connect (m, NotStarted) = (m\<lparr>running := True\<rparr>, Connecting)"
| "step cfg Call_connect (m, Returned) = (m\<lparr>running := True\<rparr>, Connecting)"
| "step cfg Connected (m, Connecting) =
     (m\<lparr>ws := Some Open, reconnect_delay := WS_RECONNECT_DELAY cfg\<rparr>, Listening)"
| "step cfg Connect_failed (m, Connecting) = after_try m"
| "step cfg Session_ended (m, Listening) = after_try (m\<lparr>ws := Some Closed\<rparr>)"
| "step cfg Sleep_done (m, Sleeping d) =
     (m\<lparr>reconnect_delay := min (reconnect_delay m * 2) (WS_RECONNECT_MAX_DELAY cfg)\<rparr>,
      if running m then Connecting else Returned)"
| "step cfg e st = st"

fun run :: "config \<Rightarrow> event list \<Rightarrow> WebSocketManager \<times> phase \<Rightarrow> WebSocketManager \<times> phase" where
  "run cfg [] st = st"
| "run cfg (e # es) st = run cfg es (step cfg e st)"

text \<open>The delays of the sleeps that a run starts, in order.\<close>

definition sleep_started :: "phase \<Rightarrow> phase \<Rightarrow> int list" where
  "sleep_started p p' =
     (case p' of
        Sleeping d \<Rightarrow> (case p of Sleeping d0 \<Rightarrow> [] | _ \<Rightarrow> [d])
      | _ \<Rightarrow> [])"

fun waits :: "config \<Rightarrow> event list \<Rightarrow> WebSocketManager \<times> phase \<Rightarrow> int list" where
  "waits cfg [] st = []"
| "waits cfg (e # es) st =
     sleep_started (snd st) (snd (step cfg e st)) @ waits cfg es (step cfg e st)"

text \<open>\<open>k\<close> connection attempts that fail, each followed by its whole sleep.\<close>

definition failures :: "nat \<Rightarrow> event list" where
  "failures k = concat (replicate k [Connect_failed, Sleep_done])"

text \<open>Configurations and a message, for concrete instances.\<close>

definition cfg_5_60 :: config where
  "cfg_5_60 = \<lparr>SPOT_SYMBOL = ''@107'', PERP_SYMBOL = ''HYPE'', WS_RECONNECT_DELAY = 5,
     WS_RECONNECT_MAX_DELAY = 60\<rparr>"

definition cfg_100_60 :: config where
  "cfg_100_60 = \<lparr>SPOT_SYMBOL = ''@107'', PERP_SYMBOL = ''HYPE'', WS_RECONNECT_DELAY = 100,
     WS_RECONNECT_MAX_DELAY = 60\<rparr>"

definition ready_manager :: WebSocketManager where
  "ready_manager =
     \<lparr>on_price_update = True,
      price_state = \<lparr>spot = example_book ''@107'' 10 10.01, perp = example_book ''HYPE'' 10.02 10.03\<rparr>,
      ws = Some Open, running = True, reconnect_delay = 5\<rparr>"

definition l2book_message :: "string \<Rightarrow> json \<Rightarrow> json" where
  "l2book_message coin levels =
     JDict [(''channel'', JStr ''l2Book''),
            (''data'', JDict [(''coin'', JStr coin), (''levels'', levels)])]"

definition level :: "string \<Rightarrow> string \<Rightarrow> json" where
  "level px sz = JDict [(''px'', JStr px), (''sz'', JStr sz)]"

text \<open>A reading of decimal strings that knows the few strings of the instances.\<close>

definition example_float :: "string \<Rightarrow> real option" where
  "example_float s =
     (if s = ''10.0'' then Some 10 else if s = ''10.02'' then Some 10.02
      else if s = ''9.99'' then Some 9.99 else if s = ''1.5'' then Some 1.5 else None)"

section \<open>Event bus (trade\_events.py)\<close>

text \<open>
  The text of an event is built by an f-string (with an emoji and formatted floats); it
  is kept symbolic: which template, and its arguments.
\<close>

datatype message =
    Text string
  | EntryMessage real real real
  | ExitMessage real real real real
  | ErrorMessage string

text \<open>An event as \<^verbatim>\<open>to_dict\<close> stores it.\<close>

record TradeEvent =
  timestamp :: string
  event_type :: string
  message :: message
  details :: "(string \<times> json) list"

text \<open>\<^verbatim>\<open>TradeEvent(...).to_dict()\<close>: \<^verbatim>\<open>details or {}\<close> turns None into the empty dict.\<close>

definition to_dict :: "string \<Rightarrow> string \<Rightarrow> message \<Rightarrow> (string \<times> json) list option \<Rightarrow> TradeEvent" where
  "to_dict ts ty msg d =
     \<lparr>timestamp = ts, event_type = ty, message = msg,
      details = (case d of None \<Rightarrow> [] | Some kvs \<Rightarrow> kvs)\<rparr>"

text \<open>
  The fields of the manager. \<^verbatim>\<open>_current_position\<close> is a dict or None (\<open>JNull\<close>).
\<close>

record TradeEventManager =
  events :: "TradeEvent list"
  trades_executed :: int
  total_pnl :: real
  current_position :: json

text \<open>
  The file \<^verbatim>\<open>trade_events.json\<close>: absent, not decodable as JSON, or a JSON object.
  A key of the object may be absent (\<open>None\<close>): \<^verbatim>\<open>_load\<close> reads each with a default.
\<close>

record snapshot =
  snap_events :: "TradeEvent list option"
  snap_trades_executed :: "int option"
  snap_total_pnl :: "real option"
  snap_current_position :: "json option"
  snap_last_update :: "string option"

datatype disk_file = Missing | Unreadable | Stored snapshot

text \<open>
  \<^verbatim>\<open>_load\<close>: the bare \<^verbatim>\<open>except: pass\<close> leaves the fields as they were when the file
  cannot be decoded.
\<close>

definition load :: "disk_file \<Rightarrow> TradeEventManager \<Rightarrow> TradeEventManager" where
  "load f m =
     (case f of
        Stored d \<Rightarrow>
          m\<lparr>events := slice_from_neg 100 (case snap_events d of None \<Rightarrow> [] | Some es \<Rightarrow> es),
            trades_executed := (case snap_trades_executed d of None \<Rightarrow> 0 | Some n \<Rightarrow> n),
            total_pnl := (case snap_total_pnl d of None \<Rightarrow> 0 | Some x \<Rightarrow> x),
            current_position := (case snap_current_position d of None \<Rightarrow> JNull | Some c \<Rightarrow> c)\<rparr>
      | _ \<Rightarrow> m)"

text \<open>\<^verbatim>\<open>__new__\<close>, the first time: empty fields, then \<^verbatim>\<open>_load\<close>.\<close>

definition new_TradeEventManager :: "disk_file \<Rightarrow> TradeEventManager" where
  "new_TradeEventManager f =
     load f \<lparr>events = [], trades_executed = 0, total_pnl = 0, current_position = JNull\<rparr>"

text \<open>
  What the file system does with a write: it succeeds; \<^verbatim>\<open>open(..., 'w')\<close> raises and
  the file is untouched; or \<^verbatim>\<open>json.dump\<close> raises after the file was truncated.
\<close>

datatype write_outcome = Written | OpenFails | DumpFails

text \<open>
  \<^verbatim>\<open>_save\<close> has no exception handler: it returns the exception. \<open>now\<close> is the clock
  reading \<^verbatim>\<open>datetime.now().isoformat()\<close>.
\<close>

definition save :: "write_outcome \<Rightarrow> string \<Rightarrow> TradeEventManager \<Rightarrow> disk_file \<Rightarrow> (py_error + unit) \<times> disk_file" where
  "save w now m f =
     (case w of
        Written \<Rightarrow>
          (Inr (),
           Stored \<lparr>snap_events = Some (slice_from_neg 100 (events m)),
                   snap_trades_executed = Some (trades_executed m),
                   snap_total_pnl = Some (total_pnl m),
                   snap_current_position = Some (current_position m),
                   snap_last_update = Some now\<rparr>)
      | OpenFails \<Rightarrow> (Inl OSError, f)
      | DumpFails \<Rightarrow> (Inl OSError, Unreadable))"

text \<open>
  Every operation takes the manager and the file and returns its result (or the
  exception), the manager and the file. The fields assigned before an exception stay
  assigned. The clock readings of one call are one value \<open>now\<close>.
\<close>

definition add_event ::
  "write_outcome \<Rightarrow> string \<Rightarrow> string \<Rightarrow> message \<Rightarrow> (string \<times> json) list option
     \<Rightarrow> TradeEventManager \<times> disk_file \<Rightarrow> (py_error + unit) \<times> TradeEventManager \<times> disk_file" where
  "add_event w now ty msg d st =
     (let m' = (fst st)\<lparr>events := events (fst st) @ [to_dict now ty msg d]\<rparr>;
          r = save w now m' (snd st)
      in (fst r, m', snd r))"

definition entry_executed ::
  "write_outcome \<Rightarrow> string \<Rightarrow> real \<Rightarrow> real \<Rightarrow> real \<Rightarrow> real
     \<Rightarrow> TradeEventManager \<times> disk_file \<Rightarrow> (py_error + unit) \<times> TradeEventManager \<times> disk_file" where
  "entry_executed w now sz spot_price perp_price spread st =
     add_event w now ''entry'' (EntryMessage sz spot_price perp_price)
       (Some [(''size'', JNum sz), (''spot_price'', JNum spot_price),
              (''perp_price'', JNum perp_price), (''spread'', JNum spread)])
       ((fst st)\<lparr>current_position :=
           JDict [(''size'', JNum sz), (''entry_spot'', JNum spot_price),
                  (''entry_perp'', JNum perp_price), (''entry_spread'', JNum spread),
                  (''entry_time'', JStr now)]\<rparr>,
        snd st)"

definition exit_executed ::
  "write_outcome \<Rightarrow> string \<Rightarrow> real \<Rightarrow> real \<Rightarrow> real \<Rightarrow> real
     \<Rightarrow> TradeEventManager \<times> disk_file \<Rightarrow> (py_error + unit) \<times> TradeEventManager \<times> disk_file" where
  "exit_executed w now sz spot_price perp_price net_pnl st =
     add_event w now ''exit'' (ExitMessage sz spot_price perp_price net_pnl)
       (Some [(''size'', JNum sz), (''spot_price'', JNum spot_price),
              (''perp_price'', JNum perp_price), (''net_pnl'', JNum net_pnl)])
       ((fst st)\<lparr>trades_executed := trades_executed (fst st) + 1,
                 total_pnl := total_pnl (fst st) + net_pnl,
                 current_position := JNull\<rparr>,
        snd st)"

definition error ::
  "write_outcome \<Rightarrow> string \<Rightarrow> string \<Rightarrow> (string \<times> json) list option
     \<Rightarrow> TradeEventManager \<times> disk_file \<Rightarrow> (py_error + unit) \<times> TradeEventManager \<times> disk_file" where
  "error w now msg d st = add_event w now ''error'' (ErrorMessage msg) d st"

text \<open>The readers reload from the file first; they return their answer and the manager.\<close>

definition get_events :: "int \<Rightarrow> TradeEventManager \<times> disk_file \<Rightarrow> TradeEvent list \<times> TradeEventManager" where
  "get_events limit st =
     (let m' = load (snd st) (fst st) in (slice_from_neg limit (events m'), m'))"

definition get_stats :: "TradeEventManager \<times> disk_file \<Rightarrow> (int \<times> real \<times> json) \<times> TradeEventManager" where
  "get_stats st =
     (let m' = load (snd st) (fst st)
      in ((trades_executed m', total_pnl m', current_position m'), m'))"

definition reset :: "write_outcome \<Rightarrow> string \<Rightarrow> TradeEventManager \<times> disk_file
     \<Rightarrow> (py_error + unit) \<times> TradeEventManager \<times> disk_file" where
  "reset w now st =
     (let m' = (fst st)\<lparr>events := [], trades_executed := 0, total_pnl := 0,
                         current_position := JNull\<rparr>;
          r = save w now m' (snd st)
      in (fst r, m', snd r))"








text \<open>A manager holding three events, and a snapshot of them, for concrete instances.\<close>

definition three_events :: "TradeEvent list" where
  "three_events =
     [to_dict ''t1'' ''opportunity'' (Text ''a'') None,
      to_dict ''t2'' ''entry'' (EntryMessage 1 10 10) None,
      to_dict ''t3'' ''exit'' (ExitMessage 1 10 10 0) None]"

definition three_events_file :: disk_file where
  "three_events_file =
     Stored \<lparr>snap_events = Some three_events, snap_trades_executed = Some 1,
             snap_total_pnl = Some 0, snap_current_position = Some JNull,
             snap_last_update = Some ''t3''\<rparr>"

section \<open>Live trading test (test\_live\_trade.py)\<close>

text \<open>
  The dict that \<^verbatim>\<open>parse_order_result\<close> returns: a fill with \<^verbatim>\<open>success\<close> True and its size,
  price, fee and order id, or one with \<^verbatim>\<open>success\<close> False and an error. The error is the
  text of the whole result, the \<^verbatim>\<open>error\<close> of a status, or the fixed text
  \<^verbatim>\<open>Unknown result format\<close>.
\<close>

datatype fill_error = Result_repr json | Status_error json | Unknown_format

datatype fill = Filled real real real json | Failed fill_error

fun success :: "fill \<Rightarrow> bool" where
  "success (Filled s p f oid) = True"
| "success (Failed e) = False"


record LiveTradingTest =
  entry_spot_fill :: "fill option"
  entry_perp_fill :: "fill option"
  exit_spot_fill :: "fill option"
  exit_perp_fill :: "fill option"
  total_fees :: real
  spot_fees :: real
  perp_fees :: real

definition new_LiveTradingTest :: LiveTradingTest where
  "new_LiveTradingTest =
     \<lparr>entry_spot_fill = None, entry_perp_fill = None, exit_spot_fill = None,
      exit_perp_fill = None, total_fees = 0, spot_fees = 0, perp_fees = 0\<rparr>"

text \<open>
  The loop of \<^verbatim>\<open>parse_order_result\<close> over the statuses: the first status that contains
  \<^verbatim>\<open>filled\<close> or, failing that, \<^verbatim>\<open>error\<close> decides; \<open>None\<close> when the loop ends without
  returning.
\<close>

fun scan_statuses :: "(string \<Rightarrow> real option) \<Rightarrow> json list \<Rightarrow> py_error + fill option" where
  "scan_statuses fl [] = Inr None"
| "scan_statuses fl (status # rest) =
     ebind (py_contains ''filled'' status) (\<lambda>has_filled.
       if has_filled then
         ebind (py_getitem status ''filled'') (\<lambda>filled.
         ebind (dict_get filled ''totalSz'' (JNum 0)) (\<lambda>v1.
         ebind (py_float fl v1) (\<lambda>total_sz.
         ebind (dict_get filled ''avgPx'' (JNum 0)) (\<lambda>v2.
         ebind (py_float fl v2) (\<lambda>avg_px.
         ebind (dict_get filled ''oid'' JNull) (\<lambda>oid.
           Inr (Some (Filled total_sz avg_px (total_sz * avg_px * 0.00025) oid))))))))
       else
         ebind (py_contains ''error'' status) (\<lambda>has_error.
           if has_error then
             ebind (py_getitem status ''error'') (\<lambda>err. Inr (Some (Failed (Status_error err))))
           else scan_statuses fl rest))"

text \<open>
  \<^verbatim>\<open>parse_order_result\<close>: the fill, and the object with the fee of a filled order added to
  \<^verbatim>\<open>total_fees\<close>. Every exception comes before that addition.
\<close>

definition parse_order_result ::
  "(string \<Rightarrow> real option) \<Rightarrow> json \<Rightarrow> LiveTradingTest \<Rightarrow> py_error + (fill \<times> LiveTradingTest)" where
  "parse_order_result fl result t =
     ebind (dict_get result ''status'' JNull) (\<lambda>st.
     if st \<noteq> JStr ''ok'' then Inr (Failed (Result_repr result), t)
     else
       ebind (dict_get result ''response'' (JDict [])) (\<lambda>response.
       ebind (dict_get response ''type'' JNull) (\<lambda>ty.
       if ty = JStr ''order'' then
         ebind (dict_get response ''data'' (JDict [])) (\<lambda>data.
         ebind (dict_get data ''statuses'' (JList [])) (\<lambda>statuses.
         ebind (py_iter statuses) (\<lambda>ss.
         ebind (scan_statuses fl ss) (\<lambda>r.
           case r of
             None \<Rightarrow> Inr (Failed Unknown_format, t)
           | Some (Filled sz px fee oid) \<Rightarrow>
               Inr (Filled sz px fee oid, t\<lparr>total_fees := total_fees t + fee\<rparr>)
           | Some (Failed e) \<Rightarrow> Inr (Failed e, t)))))
       else Inr (Failed Unknown_format, t))))"

text \<open>
  A result of the shape the gateway documents, with any response type and any statuses,
  and a status that reports a fill.
\<close>

definition order_response :: "string \<Rightarrow> json list \<Rightarrow> json" where
  "order_response ty ss =
     JDict [(''status'', JStr ''ok''),
            (''response'', JDict [(''type'', JStr ty),
                                  (''data'', JDict [(''statuses'', JList ss)])])]"

definition filled_status :: "json \<Rightarrow> json \<Rightarrow> json \<Rightarrow> json" where
  "filled_status total_sz avg_px oid =
     JDict [(''filled'', JDict [(''totalSz'', total_sz), (''avgPx'', avg_px), (''oid'', oid)])]"

text \<open>A status that decides nothing: it contains neither \<^verbatim>\<open>filled\<close> nor \<^verbatim>\<open>error\<close>.\<close>

definition undecided :: "json \<Rightarrow> bool" where
  "undecided s \<longleftrightarrow> py_contains ''filled'' s = Inr False \<and> py_contains ''error'' s = Inr False"



text \<open>
  An order as \<^verbatim>\<open>exchange.order\<close> receives it (always a limit order, immediate or
  cancel). The exchange is a parameter: what it answers to the \<open>i\<close>-th order of the run,
  a result or an exception.
\<close>

record order_request =
  name :: string
  is_buy :: bool
  sz :: real
  limit_px :: real
  reduce_only :: bool



text \<open>
  The P&L breakdown that \<^verbatim>\<open>_print_summary\<close> prints; it prints one only when all four
  fills are there and successful.
\<close>

record pnl_report =
  spot_pnl :: real
  perp_pnl :: real
  gross_pnl :: real
  net_pnl :: real
  roi :: real






section \<open>Properties: spreads\<close>

text \<open>
  C3. When both legs have a positive best bid and a positive best ask, the state is
  ready and the two spreads are the quotients of the documentation; when one of the
  four best prices is 0 the state is not ready, the entry spread is 0 and the exit
  spread is +infinity.
\<close>

theorem spreads_by_readiness:
  "(best_bid (spot p) > 0 \<and> best_ask (spot p) > 0 \<and> best_bid (perp p) > 0 \<and> best_ask (perp p) > 0
      \<longrightarrow> is_ready p
        \<and> get_entry_spread p = (best_bid (perp p) - best_ask (spot p)) / best_ask (spot p)
        \<and> get_exit_spread p = Finite ((best_ask (perp p) - best_bid (spot p)) / best_bid (spot p)))
   \<and> (best_bid (spot p) = 0 \<or> best_ask (spot p) = 0 \<or> best_bid (perp p) = 0 \<or> best_ask (perp p) = 0
      \<longrightarrow> \<not> is_ready p \<and> get_entry_spread p = 0 \<and> get_exit_spread p = PosInf)"
  by (auto simp: is_ready_def is_valid_def get_entry_spread_def get_exit_spread_def)

theorem spreads_by_readiness_witness:
  "is_ready \<lparr>spot = example_book ''@107'' 10 10, perp = example_book ''HYPE'' 10.02 9.995\<rparr>
   \<and> get_entry_spread \<lparr>spot = example_book ''@107'' 10 10, perp = example_book ''HYPE'' 10.02 9.995\<rparr>
       = 0.002
   \<and> get_exit_spread \<lparr>spot = example_book ''@107'' 10 10, perp = example_book ''HYPE'' 10.02 9.995\<rparr>
       = Finite (- 0.0005)
   \<and> \<not> is_ready \<lparr>spot = example_book ''@107'' 10 0, perp = example_book ''HYPE'' 10.02 9.995\<rparr>
   \<and> get_entry_spread \<lparr>spot = example_book ''@107'' 10 0, perp = example_book ''HYPE'' 10.02 9.995\<rparr>
       = 0
   \<and> get_exit_spread \<lparr>spot = example_book ''@107'' 10 0, perp = example_book ''HYPE'' 10.02 9.995\<rparr>
       = PosInf"
  using spreads_by_readiness
      [of "\<lparr>spot = example_book ''@107'' 10 10, perp = example_book ''HYPE'' 10.02 9.995\<rparr>"]
    spreads_by_readiness
      [of "\<lparr>spot = example_book ''@107'' 10 0, perp = example_book ''HYPE'' 10.02 9.995\<rparr>"]
  by (simp add: example_book_def)

section \<open>Properties: event bus\<close>

subsection \<open>Slices\<close>




subsection \<open>A failing write\<close>

text \<open>
  C1, as the code has it. When the write of the snapshot fails, each recording
  operation has already updated the manager in memory exactly as a successful call
  does (one event appended; counters and position set), and the exception of the write
  is what the operation returns to its caller: \<^verbatim>\<open>_save\<close> and its callers have no handler.
\<close>

theorem failed_write_updates_memory_and_raises:
  assumes "w \<noteq> Written"
  shows "fst (add_event w now ty msg d (m, f)) = Inl OSError
       \<and> fst (snd (add_event w now ty msg d (m, f))) = m\<lparr>events := events m @ [to_dict now ty msg d]\<rparr>
       \<and> fst (entry_executed w now q sp pp x (m, f)) = Inl OSError
       \<and> fst (snd (entry_executed w now q sp pp x (m, f)))
           = fst (snd (entry_executed Written now q sp pp x (m, f)))
       \<and> length (events (fst (snd (entry_executed w now q sp pp x (m, f))))) = length (events m) + 1
       \<and> fst (exit_executed w now q sp pp x (m, f)) = Inl OSError
       \<and> fst (snd (exit_executed w now q sp pp x (m, f)))
           = fst (snd (exit_executed Written now q sp pp x (m, f)))
       \<and> trades_executed (fst (snd (exit_executed w now q sp pp x (m, f)))) = trades_executed m + 1
       \<and> total_pnl (fst (snd (exit_executed w now q sp pp x (m, f)))) = total_pnl m + x
       \<and> current_position (fst (snd (exit_executed w now q sp pp x (m, f)))) = JNull
       \<and> length (events (fst (snd (exit_executed w now q sp pp x (m, f))))) = length (events m) + 1
       \<and> fst (error w now t d (m, f)) = Inl OSError
       \<and> fst (snd (error w now t d (m, f))) = m\<lparr>events := events m @ [to_dict now ''error'' (ErrorMessage t) d]\<rparr>"
  using assms
  by (cases w)
     (simp_all add: add_event_def entry_executed_def exit_executed_def error_def save_def Let_def)

theorem failed_write_updates_memory_and_raises_witness:
  "fst (exit_executed OpenFails ''t1'' 1 10 10 0.42 (new_TradeEventManager Missing, Missing)) = Inl OSError
   \<and> trades_executed (fst (snd (exit_executed OpenFails ''t1'' 1 10 10 0.42
        (new_TradeEventManager Missing, Missing)))) = 1
   \<and> total_pnl (fst (snd (exit_executed OpenFails ''t1'' 1 10 10 0.42
        (new_TradeEventManager Missing, Missing)))) = 0.42
   \<and> length (events (fst (snd (exit_executed OpenFails ''t1'' 1 10 10 0.42
        (new_TradeEventManager Missing, Missing))))) = 1"
  using failed_write_updates_memory_and_raises
    [where w = OpenFails and now = "''t1''" and m = "new_TradeEventManager Missing" and f = Missing
       and q = 1 and sp = 10 and pp = 10 and x = "0.42" and ty = "''exit''" and msg = "Text []"
       and d = None and t = "[]"]
  by (simp add: new_TradeEventManager_def load_def exit_executed_def add_event_def save_def)

text \<open>
  The claim as the specification states it fails: with a write that cannot open the
  file, \<^verbatim>\<open>add_event\<close> does not return normally.
\<close>

theorem failed_write_propagates_counterexample:
  "fst (add_event OpenFails ''t1'' ''error'' (ErrorMessage ''leg failed'') None
          (new_TradeEventManager Missing, Missing)) \<noteq> Inr ()"
  by (simp add: add_event_def save_def Let_def)

subsection \<open>Entry, then exit\<close>

text \<open>
  C5. From every state of the bus, \<^verbatim>\<open>entry_executed\<close> followed by \<^verbatim>\<open>exit_executed\<close> with
  net P&L 0.42 raises the number of trades by 1 and the total P&L by 0.42, clears the
  position, and appends two events, of kind entry and of kind exit: exactly one exit
  event. This holds whatever happens to the two writes.
\<close>

theorem entry_then_exit_counts_one_trade:
  "trades_executed (fst (snd (exit_executed w2 now2 sz2 sp2 pp2 0.42
        (snd (entry_executed w1 now1 sz1 sp1 pp1 spread1 (m, f))))))
     = trades_executed m + 1
   \<and> total_pnl (fst (snd (exit_executed w2 now2 sz2 sp2 pp2 0.42
        (snd (entry_executed w1 now1 sz1 sp1 pp1 spread1 (m, f))))))
     = total_pnl m + 0.42
   \<and> current_position (fst (snd (exit_executed w2 now2 sz2 sp2 pp2 0.42
        (snd (entry_executed w1 now1 sz1 sp1 pp1 spread1 (m, f))))))
     = JNull
   \<and> map event_type (drop (length (events m)) (events (fst (snd (exit_executed w2 now2 sz2 sp2 pp2 0.42
        (snd (entry_executed w1 now1 sz1 sp1 pp1 spread1 (m, f))))))))
     = [''entry'', ''exit'']
   \<and> take (length (events m)) (events (fst (snd (exit_executed w2 now2 sz2 sp2 pp2 0.42
        (snd (entry_executed w1 now1 sz1 sp1 pp1 spread1 (m, f)))))))
     = events m"
  by (simp add: exit_executed_def entry_executed_def add_event_def Let_def to_dict_def)

theorem entry_then_exit_counts_one_trade_witness:
  "trades_executed (fst (snd (exit_executed Written ''t5'' 1 10 10 0.42
        (snd (entry_executed Written ''t4'' 1 10 10.02 0.002 (new_TradeEventManager three_events_file, three_events_file))))))
     = 2
   \<and> total_pnl (fst (snd (exit_executed Written ''t5'' 1 10 10 0.42
        (snd (entry_executed Written ''t4'' 1 10 10.02 0.002 (new_TradeEventManager three_events_file, three_events_file))))))
     = 0.42
   \<and> map event_type (events (fst (snd (exit_executed Written ''t5'' 1 10 10 0.42
        (snd (entry_executed Written ''t4'' 1 10 10.02 0.002 (new_TradeEventManager three_events_file, three_events_file)))))))
     = [''opportunity'', ''entry'', ''exit'', ''entry'', ''exit'']"
  using entry_then_exit_counts_one_trade
    [where m = "new_TradeEventManager three_events_file" and f = three_events_file
       and ?w1.0 = Written and ?w2.0 = Written and ?now1.0 = "''t4''" and ?now2.0 = "''t5''"
       and ?sz1.0 = 1 and ?sp1.0 = 10 and ?pp1.0 = "10.02" and ?spread1.0 = "0.002"
       and ?sz2.0 = 1 and ?sp2.0 = 10 and ?pp2.0 = 10]
  by (simp add: new_TradeEventManager_def load_def three_events_file_def three_events_def
        slice_from_neg_def exit_executed_def entry_executed_def add_event_def save_def to_dict_def)

subsection \<open>The durable snapshot\<close>










subsection \<open>Reading recent events\<close>

text \<open>
  C10. \<^verbatim>\<open>get_events(limit)\<close> reloads and then, for \<open>limit > 0\<close>, returns the most recent
  \<open>min limit n\<close> of the \<open>n\<close> stored events, in order; for \<open>limit = 0\<close> it returns all of
  them.
\<close>

theorem get_events_returns_most_recent:
  "(limit > 0 \<longrightarrow>
      fst (get_events limit st)
        = drop (length (events (load (snd st) (fst st)))
                  - min (nat limit) (length (events (load (snd st) (fst st)))))
            (events (load (snd st) (fst st)))
      \<and> length (fst (get_events limit st)) = min (nat limit) (length (events (load (snd st) (fst st)))))
   \<and> fst (get_events 0 st) = events (load (snd st) (fst st))"
  by (simp add: get_events_def Let_def slice_from_neg_def min_def)

theorem get_events_returns_most_recent_witness:
  "fst (get_events 2 (new_TradeEventManager Missing, three_events_file)) = drop 1 three_events
   \<and> length (fst (get_events 2 (new_TradeEventManager Missing, three_events_file))) = 2
   \<and> fst (get_events 0 (new_TradeEventManager Missing, three_events_file)) = three_events"
  using get_events_returns_most_recent
    [of 2 "(new_TradeEventManager Missing, three_events_file)"]
  by (simp add: new_TradeEventManager_def load_def three_events_file_def three_events_def
        slice_from_neg_def get_events_def)

section \<open>Properties: market data stream\<close>

subsection \<open>Disconnecting\<close>







subsection \<open>Backoff\<close>

lemma min_double_pow:
  fixes d M :: int
  assumes "d \<le> M"
  shows "min (min (d * 2) M * 2 ^ i) M = min (d * 2 ^ Suc i) M"
proof (cases "d * 2 \<le> M")
  case True
  then show ?thesis by (simp add: mult.assoc)
next
  case False
  with assms have M: "0 \<le> M" and d: "0 < d" by auto
  have p: "(1::int) \<le> 2 ^ i" by simp
  have "M * 1 \<le> M * 2 ^ i" using p M by (rule mult_left_mono)
  moreover have "d * 2 * 1 \<le> d * 2 * 2 ^ i" using p d by (intro mult_left_mono) auto
  ultimately show ?thesis using False by (simp add: min_def mult.assoc)
qed

lemma waits_failures:
  "running m \<Longrightarrow> reconnect_delay m \<le> WS_RECONNECT_MAX_DELAY cfg \<Longrightarrow>
   waits cfg (failures k) (m, Connecting)
     = map (\<lambda>i. min (reconnect_delay m * 2 ^ i) (WS_RECONNECT_MAX_DELAY cfg)) [0..<k]"
proof (induction k arbitrary: m)
  case 0
  then show ?case by (simp add: failures_def)
next
  case (Suc k)
  let ?M = "WS_RECONNECT_MAX_DELAY cfg"
  let ?m' = "m\<lparr>reconnect_delay := min (reconnect_delay m * 2) ?M\<rparr>"
  have f: "failures (Suc k) = Connect_failed # Sleep_done # failures k"
    by (simp add: failures_def)
  have ih: "waits cfg (failures k) (?m', Connecting)
     = map (\<lambda>i. min (reconnect_delay ?m' * 2 ^ i) ?M) [0..<k]"
    using Suc.prems by (intro Suc.IH) simp_all
  have "waits cfg (failures (Suc k)) (m, Connecting)
          = reconnect_delay m # waits cfg (failures k) (?m', Connecting)"
    using Suc.prems by (simp add: f after_try_def sleep_started_def)
  also have "\<dots> = reconnect_delay m # map (\<lambda>i. min (reconnect_delay m * 2 ^ Suc i) ?M) [0..<k]"
    using ih min_double_pow [OF Suc.prems(2)] by simp
  also have "\<dots> = map (\<lambda>i. min (reconnect_delay m * 2 ^ i) ?M) [0..<Suc k]"
    using Suc.prems(2) by (simp add: upt_rec [of 0] map_Suc_upt [symmetric] del: upt_Suc)
  finally show ?case .
qed

lemma step_delay_bound:
  "WS_RECONNECT_DELAY cfg \<le> WS_RECONNECT_MAX_DELAY cfg \<Longrightarrow>
   reconnect_delay (fst st) \<le> WS_RECONNECT_MAX_DELAY cfg \<Longrightarrow>
   reconnect_delay (fst (step cfg e st)) \<le> WS_RECONNECT_MAX_DELAY cfg"
  by (cases "(cfg, e, st)" rule: step.cases)
     (auto simp: disconnect_def after_try_def split: option.splits)

lemma run_delay_bound:
  "WS_RECONNECT_DELAY cfg \<le> WS_RECONNECT_MAX_DELAY cfg \<Longrightarrow>
   reconnect_delay (fst st) \<le> WS_RECONNECT_MAX_DELAY cfg \<Longrightarrow>
   reconnect_delay (fst (run cfg es st)) \<le> WS_RECONNECT_MAX_DELAY cfg"
  by (induction es arbitrary: st) (simp_all add: step_delay_bound)

text \<open>
  C4, for a configuration whose initial delay \<open>D\<close> is at most the cap \<open>D_max\<close>. The
  sleeps before the attempts that follow \<open>k\<close> failed attempts in a row last
  \<open>min (D * 2 ^ i) D_max\<close> for \<open>i = 0, ..., k - 1\<close>; the stored delay never exceeds
  \<open>D_max\<close>, whatever happens; a successful connection stores \<open>D\<close> again, so that after
  it the sequence starts again from \<open>D\<close>.
\<close>

theorem backoff_doubles_to_cap_and_resets:
  assumes "WS_RECONNECT_DELAY cfg \<le> WS_RECONNECT_MAX_DELAY cfg"
  shows "waits cfg (Call_connect # failures k) (new_WebSocketManager cfg l, NotStarted)
           = map (\<lambda>i. min (WS_RECONNECT_DELAY cfg * 2 ^ i) (WS_RECONNECT_MAX_DELAY cfg)) [0..<k]
       \<and> (\<forall>es. reconnect_delay (fst (run cfg es (new_WebSocketManager cfg l, NotStarted)))
                \<le> WS_RECONNECT_MAX_DELAY cfg)
       \<and> reconnect_delay (fst (step cfg Connected (m, Connecting))) = WS_RECONNECT_DELAY cfg
       \<and> (running m \<longrightarrow>
            waits cfg (Connected # Session_ended # Sleep_done # failures k) (m, Connecting)
              = map (\<lambda>i. min (WS_RECONNECT_DELAY cfg * 2 ^ i) (WS_RECONNECT_MAX_DELAY cfg)) [0..<Suc k])"
proof (intro conjI allI impI)
  let ?D = "WS_RECONNECT_DELAY cfg" and ?M = "WS_RECONNECT_MAX_DELAY cfg"
  let ?m0 = "(new_WebSocketManager cfg l)\<lparr>running := True\<rparr>"
  have "waits cfg (Call_connect # failures k) (new_WebSocketManager cfg l, NotStarted)
          = waits cfg (failures k) (?m0, Connecting)"
    by (simp add: sleep_started_def)
  also have "\<dots> = map (\<lambda>i. min (reconnect_delay ?m0 * 2 ^ i) ?M) [0..<k]"
    using assms by (intro waits_failures) (simp_all add: new_WebSocketManager_def)
  finally show "waits cfg (Call_connect # failures k) (new_WebSocketManager cfg l, NotStarted)
           = map (\<lambda>i. min (?D * 2 ^ i) ?M) [0..<k]"
    by (simp add: new_WebSocketManager_def)
next
  fix es
  show "reconnect_delay (fst (run cfg es (new_WebSocketManager cfg l, NotStarted)))
          \<le> WS_RECONNECT_MAX_DELAY cfg"
    using assms by (intro run_delay_bound) (simp_all add: new_WebSocketManager_def)
next
  show "reconnect_delay (fst (step cfg Connected (m, Connecting))) = WS_RECONNECT_DELAY cfg"
    by simp
next
  let ?D = "WS_RECONNECT_DELAY cfg" and ?M = "WS_RECONNECT_MAX_DELAY cfg"
  assume r: "running m"
  let ?m2 = "m\<lparr>ws := Some Closed, reconnect_delay := min (?D * 2) ?M\<rparr>"
  have "waits cfg (Connected # Session_ended # Sleep_done # failures k) (m, Connecting)
          = ?D # waits cfg (failures k) (?m2, Connecting)"
    using r by (simp add: after_try_def sleep_started_def)
  also have "waits cfg (failures k) (?m2, Connecting)
               = map (\<lambda>i. min (reconnect_delay ?m2 * 2 ^ i) ?M) [0..<k]"
    using r by (intro waits_failures) simp_all
  also have "?D # map (\<lambda>i. min (reconnect_delay ?m2 * 2 ^ i) ?M) [0..<k]
               = ?D # map (\<lambda>i. min (?D * 2 ^ Suc i) ?M) [0..<k]"
    using min_double_pow [OF assms] by simp
  also have "\<dots> = map (\<lambda>i. min (?D * 2 ^ i) ?M) [0..<Suc k]"
    using assms by (simp add: upt_rec [of 0] map_Suc_upt [symmetric] del: upt_Suc)
  finally show "waits cfg (Connected # Session_ended # Sleep_done # failures k) (m, Connecting)
              = map (\<lambda>i. min (?D * 2 ^ i) ?M) [0..<Suc k]" .
qed

text \<open>Initial delay 5 and cap 60: six failed attempts wait 5, 10, 20, 40, 60, 60.\<close>

theorem backoff_doubles_to_cap_and_resets_witness:
  "waits cfg_5_60 (Call_connect # failures 6) (new_WebSocketManager cfg_5_60 True, NotStarted)
     = [5, 10, 20, 40, 60, 60]
   \<and> reconnect_delay (fst (run cfg_5_60 (Call_connect # failures 6)
        (new_WebSocketManager cfg_5_60 True, NotStarted))) \<le> 60
   \<and> reconnect_delay (fst (step cfg_5_60 Connected (ready_manager\<lparr>reconnect_delay := 60\<rparr>, Connecting))) = 5"
proof -
  have h: "WS_RECONNECT_DELAY cfg_5_60 \<le> WS_RECONNECT_MAX_DELAY cfg_5_60"
    by (simp add: cfg_5_60_def)
  note th = backoff_doubles_to_cap_and_resets
              [OF h, of 6 True "ready_manager\<lparr>reconnect_delay := 60\<rparr>"]
  have u: "map (\<lambda>i. min (WS_RECONNECT_DELAY cfg_5_60 * 2 ^ i) (WS_RECONNECT_MAX_DELAY cfg_5_60)) [0..<6]
             = [5, 10, 20, 40, 60, 60]"
    by (simp add: upt_rec cfg_5_60_def)
  have d: "WS_RECONNECT_DELAY cfg_5_60 = 5" and c: "WS_RECONNECT_MAX_DELAY cfg_5_60 = 60"
    by (simp_all add: cfg_5_60_def)
  have a: "waits cfg_5_60 (Call_connect # failures 6) (new_WebSocketManager cfg_5_60 True, NotStarted)
     = [5, 10, 20, 40, 60, 60]"
    using th [THEN conjunct1] u by (rule trans)
  have b: "reconnect_delay (fst (run cfg_5_60 (Call_connect # failures 6)
        (new_WebSocketManager cfg_5_60 True, NotStarted))) \<le> 60"
    using th [THEN conjunct2, THEN conjunct1, THEN spec, of "Call_connect # failures 6"]
    by (simp only: c)
  have e: "reconnect_delay (fst (step cfg_5_60 Connected (ready_manager\<lparr>reconnect_delay := 60\<rparr>, Connecting))) = 5"
    using th [THEN conjunct2, THEN conjunct2, THEN conjunct1] by (simp only: d)
  from a b e show ?thesis by (intro conjI)
qed

text \<open>
  Without the condition the claim fails: with initial delay 100 and cap 60 the stored
  delay is 100 from the start, and the first sleep lasts 100.
\<close>

theorem backoff_cap_counterexample:
  "reconnect_delay (fst (run cfg_100_60 [] (new_WebSocketManager cfg_100_60 True, NotStarted)))
     > WS_RECONNECT_MAX_DELAY cfg_100_60
   \<and> waits cfg_100_60 [Call_connect, Connect_failed, Sleep_done, Connect_failed]
        (new_WebSocketManager cfg_100_60 True, NotStarted)
     = [100, 60]"
  by (simp add: cfg_100_60_def new_WebSocketManager_def after_try_def sleep_started_def)

subsection \<open>A book update for another coin\<close>

text \<open>
  C9, as the code has it. For an \<^verbatim>\<open>l2Book\<close> message whose coin is neither configured
  symbol: if reading the top of its levels raises, the exception leaves
  \<^verbatim>\<open>_handle_message\<close>, the manager is unchanged and the listener is not called; if not,
  the manager (both legs of the price state) is unchanged, and the listener is called
  once with the existing price state exactly when one is registered and that state is
  ready.
\<close>

theorem other_coin_keeps_books_and_notifies:
  assumes "dict_get data ''channel'' JNull = Inr (JStr ''l2Book'')"
    and "dict_get data ''data'' (JDict []) = Inr book_data"
    and "dict_get book_data ''coin'' (JStr []) = Inr coin"
    and "coin \<noteq> JStr (SPOT_SYMBOL cfg)" and "coin \<noteq> JStr (PERP_SYMBOL cfg)"
    and "dict_get book_data ''levels'' (JList [JList [], JList []]) = Inr levels"
  shows "handle_message cfg fl now data m =
           (case book_top fl levels of
              Inl e \<Rightarrow> Inl e
            | Inr t \<Rightarrow> Inr (m, if on_price_update m \<and> is_ready (price_state m)
                               then [price_state m] else []))
       \<and> fst (listen_step cfg fl now data m) = m
       \<and> snd (listen_step cfg fl now data m) =
           (case book_top fl levels of
              Inl e \<Rightarrow> []
            | Inr t \<Rightarrow> if on_price_update m \<and> is_ready (price_state m) then [price_state m] else [])"
  using assms
  by (auto simp: handle_message_def listen_step_def ebind_def Let_def split: sum.splits prod.splits)

theorem other_coin_keeps_books_and_notifies_witness:
  "handle_message cfg_5_60 example_float 0
      (l2book_message ''BTC'' (JList [JList [level ''10.0'' ''1.5''], JList [level ''10.02'' ''1.5'']]))
      ready_manager
     = Inr (ready_manager, [price_state ready_manager])
   \<and> listen_step cfg_5_60 example_float 0
      (l2book_message ''BTC'' (JList [JList [level ''10.0'' ''1.5''], JList [level ''10.02'' ''1.5'']]))
      ready_manager
     = (ready_manager, [price_state ready_manager])"
  using other_coin_keeps_books_and_notifies
    [where cfg = cfg_5_60 and fl = example_float and now = 0 and m = ready_manager
      and data = "l2book_message ''BTC'' (JList [JList [level ''10.0'' ''1.5''], JList [level ''10.02'' ''1.5'']])"
      and book_data = "JDict [(''coin'', JStr ''BTC''), (''levels'', JList [JList [level ''10.0'' ''1.5''], JList [level ''10.02'' ''1.5'']])]"
      and coin = "JStr ''BTC''"
      and levels = "JList [JList [level ''10.0'' ''1.5''], JList [level ''10.02'' ''1.5'']]"]
  by (simp add: l2book_message_def level_def cfg_5_60_def ready_manager_def example_float_def
        book_top_def top_of_side_def ebind_def is_ready_def is_valid_def example_book_def
        listen_step_def handle_message_def)

text \<open>
  The claim as stated fails: the state is ready and a listener is registered, the
  message is for another coin, its best bid level has no price, and the listener is not
  called.
\<close>

theorem other_coin_bad_level_counterexample:
  "is_ready (price_state ready_manager) \<and> on_price_update ready_manager
   \<and> handle_message cfg_5_60 example_float 0
       (l2book_message ''BTC'' (JList [JList [JDict [(''sz'', JStr ''1.5'')]], JList []])) ready_manager
     = Inl KeyError
   \<and> listen_step cfg_5_60 example_float 0
       (l2book_message ''BTC'' (JList [JList [JDict [(''sz'', JStr ''1.5'')]], JList []])) ready_manager
     = (ready_manager, [])"
  by (simp add: l2book_message_def level_def cfg_5_60_def ready_manager_def example_float_def
        book_top_def top_of_side_def ebind_def is_ready_def is_valid_def example_book_def
        listen_step_def handle_message_def)

section \<open>Properties: live trading test\<close>

subsection \<open>Parsing an order result\<close>

lemma scan_skip:
  "\<forall>s\<in>set pre. undecided s \<Longrightarrow> scan_statuses fl (pre @ rest) = scan_statuses fl rest"
  by (induction pre) (simp_all add: undecided_def ebind_def)

lemma scan_none: "\<forall>s\<in>set ss. undecided s \<Longrightarrow> scan_statuses fl ss = Inr None"
  using scan_skip [of ss fl "[]"] by simp

lemma scan_filled_decomp:
  "scan_statuses fl ss = Inr (Some (Filled a b c d)) \<Longrightarrow>
   \<exists>pre e post. ss = pre @ e # post \<and> (\<forall>s\<in>set pre. undecided s)
      \<and> py_contains ''filled'' e = Inr True"
proof (induction ss)
  case Nil
  then show ?case by simp
next
  case (Cons s ss)
  show ?case
  proof (cases "py_contains ''filled'' s")
    case (Inl e)
    with Cons.prems show ?thesis by (simp add: ebind_def)
  next
    case (Inr has_filled)
    show ?thesis
    proof (cases has_filled)
      case True
      with Inr have "s # ss = [] @ s # ss \<and> (\<forall>x\<in>set []. undecided x) \<and> py_contains ''filled'' s = Inr True"
        by simp
      then show ?thesis by blast
    next
      case False
      note nf = False
      show ?thesis
      proof (cases "py_contains ''error'' s")
        case (Inl e)
        with Cons.prems Inr nf show ?thesis by (simp add: ebind_def)
      next
        case he: (Inr has_error)
        show ?thesis
        proof (cases has_error)
          case True
          with Cons.prems Inr nf he show ?thesis
            by (simp add: ebind_def split: sum.splits)
        next
          case False
          with Cons.prems Inr nf he have "scan_statuses fl ss = Inr (Some (Filled a b c d))"
            by (simp add: ebind_def)
          from Cons.IH [OF this] obtain pre e post where
            d: "ss = pre @ e # post" "\<forall>x\<in>set pre. undecided x" "py_contains ''filled'' e = Inr True"
            by blast
          from False Inr nf he have "undecided s" by (simp add: undecided_def)
          with d have "s # ss = (s # pre) @ e # post \<and> (\<forall>x\<in>set (s # pre). undecided x)
              \<and> py_contains ''filled'' e = Inr True" by simp
          then show ?thesis by blast
        qed
      qed
    qed
  qed
qed

lemma parse_order_response:
  "parse_order_result fl (order_response ty ss) t =
     (if ty = ''order'' then
        (case scan_statuses fl ss of
           Inl e \<Rightarrow> Inl e
         | Inr None \<Rightarrow> Inr (Failed Unknown_format, t)
         | Inr (Some (Filled s p f oid)) \<Rightarrow> Inr (Filled s p f oid, t\<lparr>total_fees := total_fees t + f\<rparr>)
         | Inr (Some (Failed e)) \<Rightarrow> Inr (Failed e, t))
      else Inr (Failed Unknown_format, t))"
  by (simp add: parse_order_result_def order_response_def ebind_def
        split: sum.splits option.splits fill.splits)

lemma scan_filled_first:
  assumes "py_contains ''filled'' e = Inr True" and "scan_statuses fl (e # post) = Inr r"
  shows "\<exists>a b c d. r = Some (Filled a b c d)"
  using assms by (auto simp: ebind_def split: sum.splits)

text \<open>
  C7, as the code has it. A result whose status is not \<^verbatim>\<open>ok\<close> is a failed fill. For a
  result of the documented shape: a response type other than \<^verbatim>\<open>order\<close> is a failed fill;
  otherwise the first status that contains \<^verbatim>\<open>filled\<close> or \<^verbatim>\<open>error\<close> decides: if it contains
  \<^verbatim>\<open>filled\<close>, the fill succeeds with size \<^verbatim>\<open>totalSz\<close>, price \<^verbatim>\<open>avgPx\<close> and fee size times
  price times 0.00025, which is added to the total fees; if it contains \<^verbatim>\<open>error\<close> only, or
  no status decides, the fill failed. So, whenever a fill is returned, it is a success
  exactly when the response type is \<^verbatim>\<open>order\<close> and the first deciding status contains
  \<^verbatim>\<open>filled\<close>.
\<close>

theorem fill_decided_by_first_status:
  "(dict_get result ''status'' JNull = Inr st \<and> st \<noteq> JStr ''ok''
      \<longrightarrow> parse_order_result fl result t = Inr (Failed (Result_repr result), t))
   \<and> (ty \<noteq> ''order''
      \<longrightarrow> parse_order_result fl (order_response ty ss) t = Inr (Failed Unknown_format, t))
   \<and> ((\<forall>s\<in>set pre. undecided s) \<and> py_contains ''filled'' e = Inr True
        \<and> py_getitem e ''filled'' = Inr f
        \<and> dict_get f ''totalSz'' (JNum 0) = Inr v1 \<and> py_float fl v1 = Inr total_sz
        \<and> dict_get f ''avgPx'' (JNum 0) = Inr v2 \<and> py_float fl v2 = Inr avg_px
        \<and> dict_get f ''oid'' JNull = Inr oid
      \<longrightarrow> parse_order_result fl (order_response ''order'' (pre @ e # post)) t
            = Inr (Filled total_sz avg_px (total_sz * avg_px * 0.00025) oid,
                   t\<lparr>total_fees := total_fees t + total_sz * avg_px * 0.00025\<rparr>))
   \<and> ((\<forall>s\<in>set pre. undecided s) \<and> py_contains ''filled'' e = Inr False
        \<and> py_contains ''error'' e = Inr True \<and> py_getitem e ''error'' = Inr err
      \<longrightarrow> parse_order_result fl (order_response ''order'' (pre @ e # post)) t
            = Inr (Failed (Status_error err), t))
   \<and> ((\<forall>s\<in>set ss. undecided s)
      \<longrightarrow> parse_order_result fl (order_response ''order'' ss) t = Inr (Failed Unknown_format, t))
   \<and> (parse_order_result fl (order_response ty ss) t = Inr (r, t')
      \<longrightarrow> (success r \<longleftrightarrow>
             ty = ''order'' \<and>
             (\<exists>pre e post. ss = pre @ e # post \<and> (\<forall>s\<in>set pre. undecided s)
                \<and> py_contains ''filled'' e = Inr True)))"
proof (intro conjI impI)
  assume "dict_get result ''status'' JNull = Inr st \<and> st \<noteq> JStr ''ok''"
  then show "parse_order_result fl result t = Inr (Failed (Result_repr result), t)"
    by (simp add: parse_order_result_def ebind_def)
next
  assume "ty \<noteq> ''order''"
  then show "parse_order_result fl (order_response ty ss) t = Inr (Failed Unknown_format, t)"
    by (simp add: parse_order_response)
next
  assume a: "(\<forall>s\<in>set pre. undecided s) \<and> py_contains ''filled'' e = Inr True
        \<and> py_getitem e ''filled'' = Inr f
        \<and> dict_get f ''totalSz'' (JNum 0) = Inr v1 \<and> py_float fl v1 = Inr total_sz
        \<and> dict_get f ''avgPx'' (JNum 0) = Inr v2 \<and> py_float fl v2 = Inr avg_px
        \<and> dict_get f ''oid'' JNull = Inr oid"
  then have "scan_statuses fl (pre @ e # post)
      = Inr (Some (Filled total_sz avg_px (total_sz * avg_px * 0.00025) oid))"
    by (simp add: scan_skip ebind_def)
  then show "parse_order_result fl (order_response ''order'' (pre @ e # post)) t
            = Inr (Filled total_sz avg_px (total_sz * avg_px * 0.00025) oid,
                   t\<lparr>total_fees := total_fees t + total_sz * avg_px * 0.00025\<rparr>)"
    by (simp add: parse_order_response)
next
  assume a: "(\<forall>s\<in>set pre. undecided s) \<and> py_contains ''filled'' e = Inr False
        \<and> py_contains ''error'' e = Inr True \<and> py_getitem e ''error'' = Inr err"
  then have "scan_statuses fl (pre @ e # post) = Inr (Some (Failed (Status_error err)))"
    by (simp add: scan_skip ebind_def)
  then show "parse_order_result fl (order_response ''order'' (pre @ e # post)) t
            = Inr (Failed (Status_error err), t)"
    by (simp add: parse_order_response)
next
  assume "\<forall>s\<in>set ss. undecided s"
  then show "parse_order_result fl (order_response ''order'' ss) t = Inr (Failed Unknown_format, t)"
    by (simp add: parse_order_response scan_none)
next
  assume p: "parse_order_result fl (order_response ty ss) t = Inr (r, t')"
  show "success r \<longleftrightarrow>
             ty = ''order'' \<and>
             (\<exists>pre e post. ss = pre @ e # post \<and> (\<forall>s\<in>set pre. undecided s)
                \<and> py_contains ''filled'' e = Inr True)"
  proof
    assume s: "success r"
    with p have ty: "ty = ''order''"
      by (auto simp: parse_order_response split: if_splits)
    from s obtain a b c d where r: "r = Filled a b c d" by (cases r) auto
    from p ty r have "scan_statuses fl ss = Inr (Some (Filled a b c d))"
      by (auto simp: parse_order_response split: sum.splits option.splits fill.splits)
    from scan_filled_decomp [OF this] ty
    show "ty = ''order'' \<and>
             (\<exists>pre e post. ss = pre @ e # post \<and> (\<forall>s\<in>set pre. undecided s)
                \<and> py_contains ''filled'' e = Inr True)" by blast
  next
    assume "ty = ''order'' \<and>
             (\<exists>pre e post. ss = pre @ e # post \<and> (\<forall>s\<in>set pre. undecided s)
                \<and> py_contains ''filled'' e = Inr True)"
    then obtain pre e post where ty: "ty = ''order''" and ss: "ss = pre @ e # post"
      and u: "\<forall>s\<in>set pre. undecided s" and fe: "py_contains ''filled'' e = Inr True"
      by blast
    from ss u have sc: "scan_statuses fl ss = scan_statuses fl (e # post)"
      by (simp add: scan_skip)
    from p ty obtain q where q: "scan_statuses fl ss = Inr q"
      by (auto simp: parse_order_response split: sum.splits)
    with sc scan_filled_first [OF fe, of fl post q] obtain a b c d
      where "q = Some (Filled a b c d)" by auto
    with p ty q show "success r"
      by (auto simp: parse_order_response)
  qed
qed


theorem fill_decided_by_first_status_witness:
  "parse_order_result example_float
     (order_response ''order''
        [JDict [(''resting'', JDict [(''oid'', JNum 7)])],
         filled_status (JStr ''1.5'') (JStr ''10.0'') (JNum 7),
         JDict [(''error'', JStr ''late'')]])
     new_LiveTradingTest
   = Inr (Filled 1.5 10 (1.5 * 10 * 0.00025) (JNum 7),
          new_LiveTradingTest\<lparr>total_fees := 1.5 * 10 * 0.00025\<rparr>)"
proof -
  have h: "(\<forall>s\<in>set [JDict [(''resting'', JDict [(''oid'', JNum 7)])]]. undecided s)
     \<and> py_contains ''filled'' (filled_status (JStr ''1.5'') (JStr ''10.0'') (JNum 7)) = Inr True
     \<and> py_getitem (filled_status (JStr ''1.5'') (JStr ''10.0'') (JNum 7)) ''filled''
         = Inr (JDict [(''totalSz'', JStr ''1.5''), (''avgPx'', JStr ''10.0''), (''oid'', JNum 7)])
     \<and> dict_get (JDict [(''totalSz'', JStr ''1.5''), (''avgPx'', JStr ''10.0''), (''oid'', JNum 7)])
          ''totalSz'' (JNum 0) = Inr (JStr ''1.5'')
     \<and> py_float example_float (JStr ''1.5'') = Inr 1.5
     \<and> dict_get (JDict [(''totalSz'', JStr ''1.5''), (''avgPx'', JStr ''10.0''), (''oid'', JNum 7)])
          ''avgPx'' (JNum 0) = Inr (JStr ''10.0'')
     \<and> py_float example_float (JStr ''10.0'') = Inr 10
     \<and> dict_get (JDict [(''totalSz'', JStr ''1.5''), (''avgPx'', JStr ''10.0''), (''oid'', JNum 7)])
          ''oid'' JNull = Inr (JNum 7)"
    by (simp add: undecided_def filled_status_def example_float_def)
  from fill_decided_by_first_status
         [where pre = "[JDict [(''resting'', JDict [(''oid'', JNum 7)])]]"
            and post = "[JDict [(''error'', JStr ''late'')]]"
            and t = new_LiveTradingTest,
          THEN conjunct2, THEN conjunct2, THEN conjunct1, THEN mp, OF h]
  show ?thesis by (simp add: new_LiveTradingTest_def)
qed

text \<open>
  The claim as stated fails three ways: a result whose response type is not \<^verbatim>\<open>order\<close>
  is a failed fill although its one status contains \<^verbatim>\<open>filled\<close>; a status with \<^verbatim>\<open>error\<close>
  before one with \<^verbatim>\<open>filled\<close> gives a failed fill; and in the other order the fill
  succeeds although a status contains \<^verbatim>\<open>error\<close>.
\<close>

theorem fill_not_decided_by_any_status_counterexample:
  "py_contains ''filled'' (filled_status (JStr ''1.5'') (JStr ''10.0'') (JNum 7)) = Inr True
   \<and> parse_order_result example_float
       (order_response ''cancel'' [filled_status (JStr ''1.5'') (JStr ''10.0'') (JNum 7)])
       new_LiveTradingTest
     = Inr (Failed Unknown_format, new_LiveTradingTest)
   \<and> parse_order_result example_float
       (order_response ''order'' [JDict [(''error'', JStr ''Order rejected'')],
                                  filled_status (JStr ''1.5'') (JStr ''10.0'') (JNum 7)])
       new_LiveTradingTest
     = Inr (Failed (Status_error (JStr ''Order rejected'')), new_LiveTradingTest)
   \<and> success (fst (case parse_order_result example_float
       (order_response ''order'' [filled_status (JStr ''1.5'') (JStr ''10.0'') (JNum 7),
                                  JDict [(''error'', JStr ''Order rejected'')]])
       new_LiveTradingTest of Inr r \<Rightarrow> r))"
  by (simp add: parse_order_result_def order_response_def filled_status_def ebind_def
        example_float_def new_LiveTradingTest_def)

subsection \<open>The summary of a run\<close>







end
